theory Spec2Isabelle
  imports Complex_Main "HOL-Library.Sublist"
begin

section \<open>Text primitives\<close>

text \<open>
  A Python \<open>str\<close> is modelled as a \<open>string\<close>, read as a sequence of code points; the
  \<open>char\<close> type covers the code points 0 to 255. The functions below are the built-in
  string methods the program calls, on that range.
\<close>

definition is_space :: "char \<Rightarrow> bool" where
  \<comment> \<open>\<open>str.isspace\<close> on one code point: what \<open>strip()\<close> and \<open>split()\<close> treat as whitespace.\<close>
  "is_space c = (c \<in> {CHR 0x09, CHR 0x0A, CHR 0x0B, CHR 0x0C, CHR 0x0D,
                        CHR 0x1C, CHR 0x1D, CHR 0x1E, CHR 0x1F, CHR 0x20,
                        CHR 0x85, CHR 0xA0})"

definition lower_char :: "char \<Rightarrow> char" where
  \<comment> \<open>\<open>str.lower\<close> on one code point: A-Z, and the upper-case letters of 0xC0-0xDE.\<close>
  "lower_char c =
     (let n = (of_char c :: nat)
      in if (65 \<le> n \<and> n \<le> 90) \<or> (192 \<le> n \<and> n \<le> 222 \<and> n \<noteq> 215)
         then char_of (n + 32) else c)"

definition lower :: "string \<Rightarrow> string" where
  "lower s = map lower_char s"

definition strip :: "string \<Rightarrow> string" where
  \<comment> \<open>\<open>s.strip()\<close>\<close>
  "strip s = rev (dropWhile is_space (rev (dropWhile is_space s)))"

fun split_from :: "string \<Rightarrow> string \<Rightarrow> string list" where
  \<comment> \<open>the words of the rest of the text, \<open>cur\<close> being the word read so far\<close>
  "split_from cur [] = (if cur = [] then [] else [cur])"
| "split_from cur (c # cs) =
     (if is_space c then (if cur = [] then split_from [] cs else cur # split_from [] cs)
      else split_from (cur @ [c]) cs)"

definition split_ws :: "string \<Rightarrow> string list" where
  \<comment> \<open>\<open>s.split()\<close>: the maximal runs of non-whitespace, in order\<close>
  "split_ws s = split_from [] s"

fun join :: "string \<Rightarrow> string list \<Rightarrow> string" where
  \<comment> \<open>\<open>sep.join(xs)\<close>\<close>
  "join sep [] = []"
| "join sep [x] = x"
| "join sep (x # y # ys) = x @ sep @ join sep (y # ys)"

definition contains :: "string \<Rightarrow> string \<Rightarrow> bool" where
  \<comment> \<open>\<open>needle in hay\<close> on two \<open>str\<close>: a contiguous occurrence\<close>
  "contains hay needle = sublist needle hay"

definition startswith :: "string \<Rightarrow> string \<Rightarrow> bool" where
  "startswith s p = prefix p s"

definition slice :: "string \<Rightarrow> nat \<Rightarrow> nat \<Rightarrow> string" where
  \<comment> \<open>\<open>s[i:j]\<close> for non-negative \<open>i\<close> and \<open>j\<close>\<close>
  "slice s i j = take (j - i) (drop i s)"

definition replace_newlines :: "string \<Rightarrow> string" where
  \<comment> \<open>\<open>s.replace("\n", " ")\<close>\<close>
  "replace_newlines s = map (\<lambda>c. if c = CHR 0x0A then CHR 0x20 else c) s"

fun re_split_comma_period :: "string \<Rightarrow> string list" where
  \<comment> \<open>\<open>re.split(r"[,.]", s)\<close>: cut at every comma and period, empty pieces kept\<close>
  "re_split_comma_period [] = [[]]"
| "re_split_comma_period (c # cs) =
     (if c = CHR 0x2C \<or> c = CHR 0x2E then [] # re_split_comma_period cs
      else (case re_split_comma_period cs of
              [] \<Rightarrow> [[c]]
            | p # ps \<Rightarrow> (c # p) # ps))"

section \<open>Python values, exceptions and the library functions the program calls\<close>

text \<open>
  What \<open>json.loads\<close> and \<open>ast.literal_eval\<close> hand back: the JSON values and tuples.
  A dict is an association list in insertion order, looked up from the front.
\<close>

datatype pyval =
    PNone
  | PBool bool
  | PInt int
  | PFloat real
  | PStr string
  | PList "pyval list"
  | PTuple "pyval list"
  | PDict "(pyval \<times> pyval) list"

type_synonym pydict = "(pyval \<times> pyval) list"

text \<open>
  An exception carries the name of its class (\<open>type(e).__name__\<close>) and its message
  (\<open>str(e)\<close>). \<open>exc_kind\<close> places the class in the part of the hierarchy the handlers of
  the program test: \<open>JSONDecodeError\<close> is a \<open>ValueError\<close>; every kind here is an
  \<open>Exception\<close>.
\<close>

datatype exc_kind = JSONDecodeError | ValueError | SyntaxError | ImportError | OtherException

datatype py_exc = Exc (exc_kind: exc_kind) (exc_type: string) (exc_msg: string)

definition is_json_decode_error :: "py_exc \<Rightarrow> bool" where
  "is_json_decode_error e = (exc_kind e = JSONDecodeError)"

definition is_value_error :: "py_exc \<Rightarrow> bool" where
  "is_value_error e = (exc_kind e = JSONDecodeError \<or> exc_kind e = ValueError)"

definition is_syntax_error :: "py_exc \<Rightarrow> bool" where
  "is_syntax_error e = (exc_kind e = SyntaxError)"

definition is_import_error :: "py_exc \<Rightarrow> bool" where
  "is_import_error e = (exc_kind e = ImportError)"

text \<open>
  The functions of the standard library and of \<open>textstat\<close> that the program calls are
  parameters of the model. A parser returns its value (\<open>Inr\<close>) or the exception it raises
  (\<open>Inl\<close>). \<open>fence_search raw\<close> is group 1 of
  \<^verbatim>\<open>re.search(r"```(?:json)?\s*\n?(.*?)\n?```", raw, re.DOTALL)\<close>, \<open>None\<close> without a match.
  \<open>textstat_grade\<close> is \<open>None\<close> when importing \<open>textstat\<close> fails, and otherwise
  \<open>textstat.flesch_kincaid_grade\<close>, which returns a grade or raises; \<open>format_1f\<close> is the
  format \<^verbatim>\<open>{grade:.1f}\<close>.
\<close>

record py_lib =
  json_loads :: "string \<Rightarrow> py_exc + pyval"
  literal_eval :: "string \<Rightarrow> py_exc + pyval"
  fence_search :: "string \<Rightarrow> string option"
  py_repr :: "pyval \<Rightarrow> string"
  html_unescape :: "string \<Rightarrow> string"
  textstat_grade :: "(string \<Rightarrow> py_exc + real) option"
  format_1f :: "real \<Rightarrow> string"

definition py_str :: "py_lib \<Rightarrow> pyval \<Rightarrow> string" where
  \<comment> \<open>\<open>str(v)\<close>: a \<open>str\<close> is itself, any other value its \<open>repr\<close>\<close>
  "py_str lib v = (case v of PStr s \<Rightarrow> s | _ \<Rightarrow> py_repr lib v)"

fun truthy :: "pyval \<Rightarrow> bool" where
  "truthy PNone = False"
| "truthy (PBool b) = b"
| "truthy (PInt i) = (i \<noteq> 0)"
| "truthy (PFloat r) = (r \<noteq> 0)"
| "truthy (PStr s) = (s \<noteq> [])"
| "truthy (PList xs) = (xs \<noteq> [])"
| "truthy (PTuple xs) = (xs \<noteq> [])"
| "truthy (PDict d) = (d \<noteq> [])"

fun type_name :: "pyval \<Rightarrow> string" where
  "type_name PNone = ''NoneType''"
| "type_name (PBool b) = ''bool''"
| "type_name (PInt i) = ''int''"
| "type_name (PFloat r) = ''float''"
| "type_name (PStr s) = ''str''"
| "type_name (PList xs) = ''list''"
| "type_name (PTuple xs) = ''tuple''"
| "type_name (PDict d) = ''dict''"

definition type_error_not_iterable :: "pyval \<Rightarrow> py_exc" where
  "type_error_not_iterable v =
     Exc OtherException ''TypeError''
       ([CHR 0x27] @ type_name v @ [CHR 0x27] @ '' object is not iterable'')"

definition attribute_error :: "pyval \<Rightarrow> string \<Rightarrow> py_exc" where
  "attribute_error v attr =
     Exc OtherException ''AttributeError''
       ([CHR 0x27] @ type_name v @ [CHR 0x27] @ '' object has no attribute ''
          @ [CHR 0x27] @ attr @ [CHR 0x27])"

fun py_iter :: "pyval \<Rightarrow> py_exc + pyval list" where
  \<comment> \<open>the items a \<open>for\<close> loop over the value visits, or the \<open>TypeError\<close> it raises\<close>
  "py_iter (PList xs) = Inr xs"
| "py_iter (PTuple xs) = Inr xs"
| "py_iter (PStr s) = Inr (map (\<lambda>c. PStr [c]) s)"
| "py_iter (PDict d) = Inr (map fst d)"
| "py_iter v = Inl (type_error_not_iterable v)"

definition dict_get :: "pydict \<Rightarrow> string \<Rightarrow> pyval \<Rightarrow> pyval" where
  \<comment> \<open>\<open>d.get(key, default)\<close> for a \<open>str\<close> key\<close>
  "dict_get d k dflt = (case map_of d (PStr k) of Some v \<Rightarrow> v | None \<Rightarrow> dflt)"

definition has_key :: "pydict \<Rightarrow> string \<Rightarrow> bool" where
  \<comment> \<open>\<open>key in d\<close>\<close>
  "has_key d k = (map_of d (PStr k) \<noteq> None)"

section \<open>Data model (\<open>icf/types.py\<close>)\<close>

record template_variable =
  section_id :: string
  heading :: string
  sub_section :: "string option"
  required :: bool
  instructions :: string
  required_text :: string
  suggested_text :: string
  complexity :: "string list"
  protocol_mapping :: string
  sponsor_mapping :: string
  is_in_protocol :: bool
  partially_in_protocol :: bool
  is_standard_text :: bool
  var_notes :: string
  csv_status :: string

record evidence_quote =
  quote :: string
  page :: string
  ev_section :: string

text \<open>
  The fields of an \<open>ExtractionResult\<close> that \<open>_parse_response\<close> fills from the recovered
  record hold whatever value the record holds, so they are \<open>pyval\<close>s: the annotation
  \<open>str\<close> of the dataclass is not checked when the program runs.
\<close>

record extraction_result =
  er_section_id :: pyval
  er_heading :: string
  er_sub_section :: "string option"
  status :: pyval
  answer :: pyval
  filled_template :: pyval
  evidence :: "evidence_quote list"
  confidence :: pyval
  er_notes :: pyval
  raw_response :: string
  error :: "string option"

record validation_result =
  vr_section_id :: pyval
  quotes_verified :: "bool list"
  reading_grade_level :: "real option"
  issues :: "string list"

fun first_label :: "string list \<Rightarrow> string option" where
  \<comment> \<open>the loop of \<open>get_complexity_label\<close>: the first tag that decides\<close>
  "first_label [] = None"
| "first_label (c # cs) =
     (let cl = lower c
      in if contains cl ''easy'' then Some ''Easy''
         else if contains cl ''moderate'' then Some ''Moderate''
         else if contains cl ''complex mapping'' then Some ''Complex''
         else if contains cl ''potentially in protocol'' then Some ''Moderate''
         else first_label cs)"

definition get_complexity_label :: "template_variable \<Rightarrow> string" where
  "get_complexity_label var =
     (case first_label (complexity var) of
        Some l \<Rightarrow> l
      | None \<Rightarrow> if \<not> is_in_protocol var then ''Not in protocol'' else ''Moderate'')"

section \<open>Registry (\<open>icf/registry.py\<close>)\<close>

definition classify_availability :: "string list \<Rightarrow> bool \<times> bool \<times> bool" where
  \<comment> \<open>\<open>(is_in_protocol, partially_in_protocol, is_standard_text)\<close>\<close>
  "classify_availability complexity_tags =
     (let tags_lower = map lower complexity_tags;
          joined = join '' '' tags_lower;
          has_not_in = contains joined ''not in protocol'';
          has_mapping = list_ex (\<lambda>kw. contains joined kw)
                          [''easy mapping'', ''moderate mapping'', ''complex mapping''];
          has_standard = contains joined ''standard text'';
          has_potentially = contains joined ''potentially in protocol''
      in if has_standard then (True, False, True)
         else if has_not_in \<and> \<not> has_mapping \<and> \<not> has_potentially then (False, False, False)
         else if has_not_in \<and> (has_mapping \<or> has_potentially) then (True, True, False)
         else (True, False, False))"

definition tag_contains :: "string list \<Rightarrow> string \<Rightarrow> bool" where
  \<comment> \<open>some tag, lower-cased, contains the phrase\<close>
  "tag_contains tags phrase = list_ex (\<lambda>t. contains (lower t) phrase) tags"

definition classify_by_tag :: "string list \<Rightarrow> bool \<times> bool \<times> bool" where
  \<comment> \<open>The decision table in the words of the specification: every test asks whether
      a single tag contains the phrase, case-insensitively.\<close>
  "classify_by_tag tags =
     (let has_mapping = (tag_contains tags ''easy mapping'' \<or> tag_contains tags ''moderate mapping''
                         \<or> tag_contains tags ''complex mapping'')
      in if tag_contains tags ''standard text'' then (True, False, True)
         else if tag_contains tags ''not in protocol'' \<and> \<not> has_mapping
                 \<and> \<not> tag_contains tags ''potentially in protocol'' then (False, False, False)
         else if tag_contains tags ''not in protocol''
                 \<and> (has_mapping \<or> tag_contains tags ''potentially in protocol'') then (True, True, False)
         else (True, False, False))"

definition parse_complexity :: "py_lib \<Rightarrow> string \<Rightarrow> py_exc + string list" where
  "parse_complexity lib raw0 =
     (let raw = strip raw0
      in if raw = [] then Inr []
         else if startswith raw ''[''
         then (case literal_eval lib raw of
                 Inr v \<Rightarrow> (case v of PList xs \<Rightarrow> Inr (map (py_str lib) xs) | _ \<Rightarrow> Inr [raw])
               | Inl e \<Rightarrow> if is_value_error e \<or> is_syntax_error e then Inr [raw] else Inl e)
         else Inr [raw])"

definition parse_required :: "string \<Rightarrow> bool" where
  "parse_required raw =
     (let l = lower (strip raw)
      in if startswith l ''required'' then True
         else if startswith l ''optional'' then False
         else contains l ''required'' \<and> \<not> contains l ''optional'')"

definition cell_or_empty :: "py_lib \<Rightarrow> string list \<Rightarrow> nat \<Rightarrow> string" where
  \<comment> \<open>\<open>html.unescape(row[k].strip()) if len(row) > k else ""\<close>\<close>
  "cell_or_empty lib row k = (if length row > k then html_unescape lib (strip (row ! k)) else [])"

definition build_variable :: "py_lib \<Rightarrow> string list \<Rightarrow> py_exc + template_variable" where
  \<comment> \<open>the body of the loop for a row of at least 8 cells that is not excluded\<close>
  "build_variable lib row =
     (let sub = html_unescape lib (strip (row ! 4))
      in case parse_complexity lib (strip (row ! 2)) of
           Inl e \<Rightarrow> Inl e
         | Inr tags \<Rightarrow>
             (case classify_availability tags of
                (is_in, partial, standard) \<Rightarrow>
                  Inr \<lparr> section_id = strip (row ! 0),
                        heading = html_unescape lib (strip (row ! 3)),
                        sub_section = (if sub = [] then None else Some sub),
                        required = parse_required (strip (row ! 5)),
                        instructions = html_unescape lib (strip (row ! 6)),
                        required_text = html_unescape lib (strip (row ! 7)),
                        suggested_text = cell_or_empty lib row 8,
                        complexity = tags,
                        protocol_mapping = cell_or_empty lib row 11,
                        sponsor_mapping = cell_or_empty lib row 12,
                        is_in_protocol = is_in,
                        partially_in_protocol = partial,
                        is_standard_text = standard,
                        var_notes = cell_or_empty lib row 14,
                        csv_status = strip (row ! 1) \<rparr>))"

definition row_skipped :: "string list \<Rightarrow> bool" where
  \<comment> \<open>the two \<open>continue\<close> tests at the head of the loop\<close>
  "row_skipped row = (length row < 8 \<or> lower (strip (row ! 1)) = ''excluded'')"

fun load_rows :: "py_lib \<Rightarrow> string list list \<Rightarrow> template_variable list
                   \<Rightarrow> py_exc + template_variable list" where
  "load_rows lib [] variables = Inr variables"
| "load_rows lib (row # rest) variables =
     (if length row < 8 then load_rows lib rest variables
      else if lower (strip (row ! 1)) = ''excluded'' then load_rows lib rest variables
      else (case build_variable lib row of
              Inl e \<Rightarrow> Inl e
            | Inr v \<Rightarrow> load_rows lib rest (variables @ [v])))"

definition load_template_registry ::
    "py_lib \<Rightarrow> string \<Rightarrow> string list list option \<Rightarrow> py_exc + template_variable list" where
  \<comment> \<open>The file at \<open>csv_path\<close> is \<open>None\<close> when it does not exist, and otherwise the rows
      \<open>csv.reader\<close> yields, the header row first.\<close>
  "load_template_registry lib csv_path file =
     (case file of
        None \<Rightarrow> Inl (Exc OtherException ''FileNotFoundError''
                       (''Template CSV not found: '' @ csv_path))
      | Some [] \<Rightarrow> Inl (Exc OtherException ''StopIteration'' [])
      | Some (header # rows) \<Rightarrow>
          (case load_rows lib rows [] of
             Inl e \<Rightarrow> Inl e
           | Inr variables \<Rightarrow>
               if variables = []
               then Inl (Exc ValueError ''ValueError'' (''No variables loaded from CSV: '' @ csv_path))
               else Inr variables))"

section \<open>Validation (\<open>icf/validate.py\<close>)\<close>

definition normalise :: "string \<Rightarrow> string" where
  "normalise s = join '' '' (split_ws (lower s))"

definition verify_quote :: "string \<Rightarrow> string \<Rightarrow> bool" where
  \<comment> \<open>The parameter \<open>threshold\<close> of the source is never read. The test
      \<open>found / len(phrases) >= 0.5\<close> is written on the integers.\<close>
  "verify_quote q protocol_text =
     (if q = [] \<or> protocol_text = [] then False
      else let norm_q = normalise q;
               norm_p = normalise protocol_text
           in if contains norm_p norm_q then True
              else let pre = take 120 norm_q
                   in if length pre > 30 \<and> contains norm_p pre then True
                      else let phrases = map strip (filter (\<lambda>p. length (strip p) > 15)
                                                       (re_split_comma_period norm_q));
                               found = length (filter (\<lambda>p. contains norm_p p) phrases)
                           in if phrases \<noteq> [] \<and> length phrases \<le> 2 * found then True
                              else False)"

definition check_reading_level :: "py_lib \<Rightarrow> pyval \<Rightarrow> py_exc + real option" where
  \<comment> \<open>\<open>text.split()\<close> on a value that is not a \<open>str\<close> raises \<open>AttributeError\<close>. The
      handler around the import and the call of \<open>textstat\<close> is \<open>except ImportError\<close>.\<close>
  "check_reading_level lib t =
     (if \<not> truthy t then Inr None
      else case t of
             PStr s \<Rightarrow>
               if length (split_ws s) < 10 then Inr None
               else (case textstat_grade lib of
                       None \<Rightarrow> Inr None
                     | Some grade \<Rightarrow>
                         (case grade s of
                            Inr g \<Rightarrow> Inr (Some g)
                          | Inl e \<Rightarrow> if is_import_error e then Inr None else Inl e))
           | _ \<Rightarrow> Inl (attribute_error t ''split''))"

definition READING_LEVEL_WARN :: real where
  "READING_LEVEL_WARN = 8"

definition quote_issue :: "string \<Rightarrow> string" where
  \<comment> \<open>the message for a quote that was not verified, on its first 80 characters\<close>
  "quote_issue q =
     ''Quote not verified in protocol: '' @ [CHR 0x22] @ replace_newlines (take 80 q)
       @ ''...'' @ [CHR 0x22]"

definition reading_issue :: "py_lib \<Rightarrow> real \<Rightarrow> string" where
  "reading_issue lib grade =
     ''Reading level ('' @ format_1f lib grade @ '') exceeds Grade 8 target.''"

fun verify_loop :: "evidence_quote list \<Rightarrow> string \<Rightarrow> bool list \<Rightarrow> string list
                     \<Rightarrow> bool list \<times> string list" where
  \<comment> \<open>the loop over \<open>ext.evidence\<close>, threading \<open>quotes_ok\<close> and \<open>issues\<close>\<close>
  "verify_loop [] protocol_text quotes_ok iss = (quotes_ok, iss)"
| "verify_loop (ev # evs) protocol_text quotes_ok iss =
     (let ok = verify_quote (quote ev) protocol_text
      in verify_loop evs protocol_text (quotes_ok @ [ok])
           (if ok then iss else iss @ [quote_issue (quote ev)]))"

definition skip_statuses :: "pyval list" where
  "skip_statuses = [PStr ''SKIPPED'', PStr ''ERROR'', PStr ''NOT_FOUND'', PStr ''STANDARD_TEXT'']"

definition validate_one :: "py_lib \<Rightarrow> extraction_result \<Rightarrow> string \<Rightarrow> py_exc + validation_result" where
  \<comment> \<open>one pass of the loop of \<open>validate_extractions\<close>\<close>
  "validate_one lib ext protocol_text =
     (if List.member skip_statuses (status ext)
      then Inr \<lparr> vr_section_id = er_section_id ext, quotes_verified = [],
                 reading_grade_level = None, issues = [] \<rparr>
      else case verify_loop (evidence ext) protocol_text [] [] of
             (quotes_ok, iss) \<Rightarrow>
               (case check_reading_level lib (answer ext) of
                  Inl e \<Rightarrow> Inl e
                | Inr grade \<Rightarrow>
                    Inr \<lparr> vr_section_id = er_section_id ext,
                          quotes_verified = quotes_ok,
                          reading_grade_level = grade,
                          issues = (case grade of
                                      None \<Rightarrow> iss
                                    | Some g \<Rightarrow> if g > READING_LEVEL_WARN
                                                then iss @ [reading_issue lib g] else iss) \<rparr>))"

fun validate_loop :: "py_lib \<Rightarrow> extraction_result list \<Rightarrow> string \<Rightarrow> validation_result list
                       \<Rightarrow> py_exc + validation_result list" where
  "validate_loop lib [] protocol_text results = Inr results"
| "validate_loop lib (ext # rest) protocol_text results =
     (case validate_one lib ext protocol_text of
        Inl e \<Rightarrow> Inl e
      | Inr v \<Rightarrow> validate_loop lib rest protocol_text (results @ [v]))"

definition validate_extractions ::
    "py_lib \<Rightarrow> extraction_result list \<Rightarrow> string \<Rightarrow> py_exc + validation_result list" where
  "validate_extractions lib extractions protocol_text = validate_loop lib extractions protocol_text []"

section \<open>Recovery of a record from the agent's answer (\<open>icf/extract.py\<close>)\<close>

fun brace_scan :: "string \<Rightarrow> nat \<Rightarrow> int \<Rightarrow> nat option \<Rightarrow> string list \<Rightarrow> string
                    \<Rightarrow> string list" where
  \<comment> \<open>the loop of \<open>_extract_brace_candidates\<close> from index \<open>i\<close> on, over the characters left\<close>
  "brace_scan whole i depth start results [] = results"
| "brace_scan whole i depth start results (ch # rest) =
     (if ch = CHR 0x7B
      then brace_scan whole (i + 1) (depth + 1) (if depth = 0 then Some i else start) results rest
      else if ch = CHR 0x7D
      then (if depth - 1 = 0 \<and> start \<noteq> None
            then brace_scan whole (i + 1) (depth - 1) None
                   (results @ [slice whole (the start) (i + 1)]) rest
            else brace_scan whole (i + 1) (depth - 1) start results rest)
      else brace_scan whole (i + 1) depth start results rest)"

definition extract_brace_candidates :: "string \<Rightarrow> string list" where
  "extract_brace_candidates s = brace_scan s 0 0 None [] s"

definition as_dict :: "pyval \<Rightarrow> pydict option" where
  \<comment> \<open>\<open>isinstance(data, dict)\<close>\<close>
  "as_dict v = (case v of PDict d \<Rightarrow> Some d | _ \<Rightarrow> None)"

text \<open>
  Each strategy returns \<open>Inr (Some d)\<close> where the source returns the dict \<open>d\<close>,
  \<open>Inr None\<close> where it goes on to the next strategy, and \<open>Inl e\<close> where an exception
  leaves \<open>parse_extraction_json\<close> because no handler of the strategy catches it.
\<close>

definition direct_parse :: "py_lib \<Rightarrow> string \<Rightarrow> py_exc + pydict option" where
  \<comment> \<open>strategy 1, and the parse of strategy 3; handler \<open>(json.JSONDecodeError, ValueError)\<close>\<close>
  "direct_parse lib s =
     (case json_loads lib s of
        Inr v \<Rightarrow> Inr (as_dict v)
      | Inl e \<Rightarrow> if is_value_error e then Inr None else Inl e)"

definition python_literal :: "py_lib \<Rightarrow> string \<Rightarrow> py_exc + pydict option" where
  \<comment> \<open>strategy 2; handler \<open>(ValueError, SyntaxError)\<close>\<close>
  "python_literal lib s =
     (case literal_eval lib s of
        Inr v \<Rightarrow> Inr (as_dict v)
      | Inl e \<Rightarrow> if is_value_error e \<or> is_syntax_error e then Inr None else Inl e)"

definition code_fence :: "py_lib \<Rightarrow> string \<Rightarrow> py_exc + pydict option" where
  \<comment> \<open>strategy 3\<close>
  "code_fence lib raw =
     (case fence_search lib raw of
        None \<Rightarrow> Inr None
      | Some inner \<Rightarrow> direct_parse lib (strip inner))"

fun scan_candidates :: "py_lib \<Rightarrow> string list \<Rightarrow> pydict option \<Rightarrow> py_exc + pydict option" where
  \<comment> \<open>strategies 4 and 5: the loop over the reversed candidates, and the return of
      \<open>any_valid\<close> after it; handler \<open>json.JSONDecodeError\<close>\<close>
  "scan_candidates lib [] any_valid = Inr any_valid"
| "scan_candidates lib (candidate # rest) any_valid =
     (case json_loads lib candidate of
        Inl e \<Rightarrow> if is_json_decode_error e then scan_candidates lib rest any_valid else Inl e
      | Inr v \<Rightarrow>
          (case as_dict v of
             None \<Rightarrow> scan_candidates lib rest any_valid
           | Some d \<Rightarrow>
               if has_key d ''status'' then Inr (Some d)
               else scan_candidates lib rest (if any_valid = None then Some d else any_valid)))"

definition parsed_dict :: "py_lib \<Rightarrow> string \<Rightarrow> pydict option" where
  \<comment> \<open>the candidate parses as an object\<close>
  "parsed_dict lib c = (case json_loads lib c of Inr v \<Rightarrow> as_dict v | Inl e \<Rightarrow> None)"

definition balanced_braces :: "py_lib \<Rightarrow> string \<Rightarrow> py_exc + pydict option" where
  "balanced_braces lib raw = scan_candidates lib (rev (extract_brace_candidates raw)) None"

definition fallback_record :: "string \<Rightarrow> pydict" where
  "fallback_record stripped =
     [(PStr ''status'', PStr ''PARTIAL''),
      (PStr ''answer'', PStr stripped),
      (PStr ''filled_template'', PStr []),
      (PStr ''evidence'', PList []),
      (PStr ''confidence'', PStr ''LOW''),
      (PStr ''notes'',
       PStr ''RLM returned free-form text instead of JSON. Content may need manual review.'')]"

definition parse_extraction_json :: "py_lib \<Rightarrow> string \<Rightarrow> py_exc + pydict option" where
  "parse_extraction_json lib raw =
     (if raw = [] then Inr None
      else let stripped = strip raw
           in case direct_parse lib stripped of
                Inl e \<Rightarrow> Inl e
              | Inr (Some d) \<Rightarrow> Inr (Some d)
              | Inr None \<Rightarrow>
           (case python_literal lib stripped of
                Inl e \<Rightarrow> Inl e
              | Inr (Some d) \<Rightarrow> Inr (Some d)
              | Inr None \<Rightarrow>
           (case code_fence lib raw of
                Inl e \<Rightarrow> Inl e
              | Inr (Some d) \<Rightarrow> Inr (Some d)
              | Inr None \<Rightarrow>
           (case balanced_braces lib raw of
                Inl e \<Rightarrow> Inl e
              | Inr (Some d) \<Rightarrow> Inr (Some d)
              | Inr None \<Rightarrow>
                  if length stripped > 20 then Inr (Some (fallback_record stripped))
                  else Inr None))))"

section \<open>The extraction engine (\<open>icf/extract.py\<close>)\<close>

text \<open>
  The agent is a parameter. \<open>rlm_completion max_iter prompt root_prompt\<close> stands for
  building the \<open>RLM\<close> and calling \<open>completion\<close>: it answers with a text, raises an
  \<open>Exception\<close>, or is cut short by \<open>KeyboardInterrupt\<close>, which is no \<open>Exception\<close>.
  The prompt text of \<open>build_extraction_prompt\<close> is a parameter as well.
\<close>

datatype agent_outcome = Response string | Fails py_exc | KeyboardInterrupt

datatype 'a outcome = Done 'a | Interrupted

record engine =
  stdlib :: py_lib
  rlm_completion :: "int \<Rightarrow> string \<Rightarrow> string \<Rightarrow> agent_outcome"
  build_extraction_prompt :: "template_variable \<Rightarrow> string"
  max_iterations :: int

definition iterations_for :: "engine \<Rightarrow> template_variable \<Rightarrow> int" where
  "iterations_for eng var =
     (let label = get_complexity_label var;
          budget = (if label = ''Easy'' then 10
                    else if label = ''Moderate'' then 15
                    else if label = ''Complex'' then max_iterations eng
                    else if label = ''Not in protocol'' then 8
                    else 12)
      in min budget (max_iterations eng))"

definition make_standard_result :: "template_variable \<Rightarrow> extraction_result" where
  "make_standard_result var =
     \<lparr> er_section_id = PStr (section_id var),
       er_heading = heading var,
       er_sub_section = sub_section var,
       status = PStr ''STANDARD_TEXT'',
       answer = PStr (required_text var),
       filled_template = PStr (required_text var),
       evidence = [],
       confidence = PStr ''HIGH'',
       er_notes = PStr ''Standard required text - no extraction needed.'',
       raw_response = [],
       error = None \<rparr>"

definition make_skipped_result :: "template_variable \<Rightarrow> extraction_result" where
  "make_skipped_result var =
     \<lparr> er_section_id = PStr (section_id var),
       er_heading = heading var,
       er_sub_section = sub_section var,
       status = PStr ''SKIPPED'',
       answer = PStr [],
       filled_template = PStr [],
       evidence = [],
       confidence = PStr ''N/A'',
       er_notes = PStr (''Section marked as '' @ [CHR 0x27]
                         @ ''Not in protocol - requires manual entry'' @ [CHR 0x27]
                         @ ''. Use suggested text from template as a starting point.''),
       raw_response = [],
       error = None \<rparr>"

definition exception_result :: "template_variable \<Rightarrow> py_exc \<Rightarrow> extraction_result" where
  \<comment> \<open>the handler \<open>except Exception as e\<close> of \<open>_run_rlm_extraction\<close>\<close>
  "exception_result var e =
     \<lparr> er_section_id = PStr (section_id var),
       er_heading = heading var,
       er_sub_section = sub_section var,
       status = PStr ''ERROR'',
       answer = PStr [],
       filled_template = PStr [],
       evidence = [],
       confidence = PStr ''LOW'',
       er_notes = PStr [],
       raw_response = [],
       error = Some (exc_type e @ '': '' @ exc_msg e) \<rparr>"

definition parse_failure_result :: "template_variable \<Rightarrow> string \<Rightarrow> extraction_result" where
  \<comment> \<open>the branch \<open>data is None\<close> of \<open>_parse_response\<close>\<close>
  "parse_failure_result var raw =
     \<lparr> er_section_id = PStr (section_id var),
       er_heading = heading var,
       er_sub_section = sub_section var,
       status = PStr ''ERROR'',
       answer = PStr [],
       filled_template = PStr [],
       evidence = [],
       confidence = PStr ''LOW'',
       er_notes = PStr ''Failed to parse JSON from RLM response.'',
       raw_response = raw,
       error = Some ''JSON parse failure'' \<rparr>"

fun collect_evidence :: "py_lib \<Rightarrow> pyval list \<Rightarrow> evidence_quote list \<Rightarrow> evidence_quote list" where
  \<comment> \<open>the loop over \<open>data.get("evidence", [])\<close>: only the dicts give a quote\<close>
  "collect_evidence lib [] acc = acc"
| "collect_evidence lib (e # es) acc =
     (case as_dict e of
        None \<Rightarrow> collect_evidence lib es acc
      | Some d \<Rightarrow>
          collect_evidence lib es
            (acc @ [\<lparr> quote = py_str lib (dict_get d ''quote'' (PStr [])),
                      page = py_str lib (dict_get d ''page'' (PStr [])),
                      ev_section = py_str lib (dict_get d ''section'' (PStr [])) \<rparr>]))"

definition record_result :: "template_variable \<Rightarrow> string \<Rightarrow> pydict \<Rightarrow> evidence_quote list
                              \<Rightarrow> extraction_result" where
  \<comment> \<open>the \<open>ExtractionResult\<close> that \<open>_parse_response\<close> builds from the recovered record\<close>
  "record_result var raw data evs =
     \<lparr> er_section_id = dict_get data ''section_id'' (PStr (section_id var)),
       er_heading = heading var,
       er_sub_section = sub_section var,
       status = dict_get data ''status'' (PStr ''ERROR''),
       answer = dict_get data ''answer'' (PStr []),
       filled_template = dict_get data ''filled_template'' (PStr []),
       evidence = evs,
       confidence = dict_get data ''confidence'' (PStr ''LOW''),
       er_notes = dict_get data ''notes'' (PStr []),
       raw_response = raw,
       error = None \<rparr>"

definition parse_response :: "py_lib \<Rightarrow> string \<Rightarrow> template_variable \<Rightarrow> py_exc + extraction_result" where
  "parse_response l raw var =
     (case parse_extraction_json l raw of
        Inl e \<Rightarrow> Inl e
      | Inr None \<Rightarrow> Inr (parse_failure_result var raw)
      | Inr (Some data) \<Rightarrow>
          (case py_iter (dict_get data ''evidence'' (PList [])) of
             Inl e \<Rightarrow> Inl e
           | Inr items \<Rightarrow> Inr (record_result var raw data (collect_evidence l items []))))"

definition run_rlm_extraction :: "engine \<Rightarrow> string \<Rightarrow> template_variable \<Rightarrow> extraction_result outcome" where
  "run_rlm_extraction eng protocol_text var =
     (let max_iter = iterations_for eng var;
          root_prompt = build_extraction_prompt eng var
      in case rlm_completion eng max_iter protocol_text root_prompt of
           KeyboardInterrupt \<Rightarrow> Interrupted
         | Fails e \<Rightarrow> Done (exception_result var e)
         | Response raw \<Rightarrow>
             (case parse_response (stdlib eng) raw var of
                Inl e \<Rightarrow> Done (exception_result var e)
              | Inr r \<Rightarrow> Done r))"

definition extract_variable :: "engine \<Rightarrow> string \<Rightarrow> template_variable \<Rightarrow> extraction_result outcome" where
  "extract_variable eng protocol_text var =
     (if is_standard_text var then Done (make_standard_result var)
      else if \<not> is_in_protocol var \<and> \<not> partially_in_protocol var
      then Done (make_skipped_result var)
      else run_rlm_extraction eng protocol_text var)"

definition agent_answer :: "engine \<Rightarrow> string \<Rightarrow> template_variable \<Rightarrow> agent_outcome" where
  \<comment> \<open>what the agent call of \<open>_run_rlm_extraction\<close> yields for a variable\<close>
  "agent_answer eng protocol_text var =
     rlm_completion eng (iterations_for eng var) protocol_text (build_extraction_prompt eng var)"

definition routed_to_agent :: "template_variable \<Rightarrow> bool" where
  "routed_to_agent var = (\<not> is_standard_text var \<and> (is_in_protocol var \<or> partially_in_protocol var))"


section \<open>The orchestrator (\<open>icf/pipeline.py\<close>, stages 3 to 5)\<close>

fun extract_loop :: "engine \<Rightarrow> string \<Rightarrow> template_variable list \<Rightarrow> extraction_result list
                      \<Rightarrow> extraction_result list" where
  \<comment> \<open>the loop over \<open>variables\<close> inside \<open>try ... except KeyboardInterrupt\<close>: an interrupt
      ends the loop and keeps what was appended\<close>
  "extract_loop eng protocol_text [] extractions = extractions"
| "extract_loop eng protocol_text (var # rest) extractions =
     (case extract_variable eng protocol_text var of
        Interrupted \<Rightarrow> extractions
      | Done r \<Rightarrow> extract_loop eng protocol_text rest (extractions @ [r]))"

definition run_extract_validate ::
    "engine \<Rightarrow> string \<Rightarrow> template_variable list
       \<Rightarrow> py_exc + (extraction_result list \<times> validation_result list)" where
  \<comment> \<open>\<open>ICFPipeline.run\<close> from the extraction loop to the call of \<open>validate_extractions\<close>,
      which no handler surrounds\<close>
  "run_extract_validate eng protocol_text variables =
     (let extractions = extract_loop eng protocol_text variables []
      in case validate_extractions (stdlib eng) extractions protocol_text of
           Inl e \<Rightarrow> Inl e
         | Inr validations \<Rightarrow> Inr (extractions, validations))"

definition interrupted_at :: "engine \<Rightarrow> string \<Rightarrow> template_variable \<Rightarrow> bool" where
  "interrupted_at eng protocol_text var =
     (routed_to_agent var \<and> agent_answer eng protocol_text var = KeyboardInterrupt)"

section \<open>Sample inputs\<close>

text \<open>
  The concrete inputs of the examples. \<open>sample_json_loads\<close> is \<open>json.loads\<close> on the
  texts the examples use: the JSON texts below parse to their dicts, and the other texts
  of the examples are no JSON. None of them holds a code fence, which is all
  \<open>sample_lib\<close> says of the fence search.
\<close>

definition found_json :: string where
  \<open>found_json = ''{"status": "FOUND", "answer": "x"}''\<close>

definition maybe_json :: string where
  \<open>maybe_json = ''{"status": "MAYBE"}''\<close>

definition standard_json :: string where
  \<open>standard_json = ''{"status": "STANDARD_TEXT", "evidence": [{"quote": "q", "page": "1"}]}''\<close>

definition renamed_json :: string where
  \<open>renamed_json = ''{"section_id": "9.9", "status": "FOUND", "answer": "yes"}''\<close>

definition number_json :: string where
  \<open>number_json = ''{"status": "FOUND", "answer": 5}''\<close>

definition null_evidence_json :: string where
  \<open>null_evidence_json = ''{"status": "FOUND", "evidence": null}''\<close>

definition nested_json :: string where
  \<comment> \<open>no JSON; as a Python literal, a set that holds a dict\<close>
  \<open>nested_json = ''{{"status": "FOUND", "answer": "x"}}''\<close>

definition no_json :: py_exc where
  "no_json = Exc JSONDecodeError ''JSONDecodeError'' ''Expecting value: line 1 column 1 (char 0)''"

definition sample_json_loads :: "string \<Rightarrow> py_exc + pyval" where
  "sample_json_loads s =
     (if s = found_json
      then Inr (PDict [(PStr ''status'', PStr ''FOUND''), (PStr ''answer'', PStr ''x'')])
      else if s = maybe_json
      then Inr (PDict [(PStr ''status'', PStr ''MAYBE'')])
      else if s = standard_json
      then Inr (PDict [(PStr ''status'', PStr ''STANDARD_TEXT''),
                      (PStr ''evidence'',
                       PList [PDict [(PStr ''quote'', PStr ''q''), (PStr ''page'', PStr ''1'')]])])
      else if s = renamed_json
      then Inr (PDict [(PStr ''section_id'', PStr ''9.9''), (PStr ''status'', PStr ''FOUND''),
                      (PStr ''answer'', PStr ''yes'')])
      else if s = number_json
      then Inr (PDict [(PStr ''status'', PStr ''FOUND''), (PStr ''answer'', PInt 5)])
      else if s = null_evidence_json
      then Inr (PDict [(PStr ''status'', PStr ''FOUND''), (PStr ''evidence'', PNone)])
      else if s = nested_json
      then Inl (Exc JSONDecodeError ''JSONDecodeError''
                  ''Expecting property name enclosed in double quotes: line 1 column 2 (char 1)'')
      else Inl no_json)"

definition sample_literal_eval :: "string \<Rightarrow> py_exc + pyval" where
  \<comment> \<open>\<open>ast.literal_eval\<close> on the texts of the examples that are no JSON: building the
      set of \<open>nested_json\<close> raises \<open>TypeError\<close>, the others are no Python expression\<close>
  "sample_literal_eval s =
     (if s = nested_json
      then Inl (Exc OtherException ''TypeError''
                  (''unhashable type: '' @ [CHR 0x27] @ ''dict'' @ [CHR 0x27]))
      else Inl (Exc SyntaxError ''SyntaxError'' ''invalid syntax''))"

definition sample_repr :: "pyval \<Rightarrow> string" where
  "sample_repr v =
     (case v of
        PNone \<Rightarrow> ''None''
      | PBool b \<Rightarrow> (if b then ''True'' else ''False'')
      | _ \<Rightarrow> ''...'')"

definition sample_lib :: py_lib where
  "sample_lib =
     \<lparr> json_loads = sample_json_loads,
       literal_eval = sample_literal_eval,
       fence_search = (\<lambda>s. None),
       py_repr = sample_repr,
       html_unescape = (\<lambda>s. s),
       textstat_grade = None,
       format_1f = (\<lambda>r. []) \<rparr>"

definition sample_agent :: "int \<Rightarrow> string \<Rightarrow> string \<Rightarrow> agent_outcome" where
  \<comment> \<open>an agent that answers with its task text, but for two task texts\<close>
  "sample_agent max_iter prompt root_prompt =
     (if root_prompt = ''raise'' then Fails (Exc OtherException ''TimeoutError'' ''timed out'')
      else if root_prompt = ''interrupt'' then KeyboardInterrupt
      else Response root_prompt)"

definition sample_engine :: engine where
  "sample_engine =
     \<lparr> stdlib = sample_lib,
       rlm_completion = sample_agent,
       build_extraction_prompt = instructions,
       max_iterations = 20 \<rparr>"

definition sample_variable :: "string \<Rightarrow> string \<Rightarrow> template_variable" where
  \<comment> \<open>a variable that is routed to the agent\<close>
  "sample_variable sid task =
     \<lparr> section_id = sid, heading = ''Sponsor'', sub_section = None, required = True,
       instructions = task, required_text = ''The sponsor is {{name}}.'', suggested_text = [],
       complexity = [''Easy Mapping''], protocol_mapping = [], sponsor_mapping = [],
       is_in_protocol = True, partially_in_protocol = False, is_standard_text = False,
       var_notes = [], csv_status = [] \<rparr>"

definition sample_protocol :: string where
  "sample_protocol = ''The sponsor will pay all costs.''"

definition sample_found :: extraction_result where
  \<comment> \<open>a result with one quote the protocol holds and one it does not\<close>
  "sample_found =
     \<lparr> er_section_id = PStr ''1.1'', er_heading = ''Sponsor'', er_sub_section = None,
       status = PStr ''FOUND'', answer = PStr ''The sponsor pays.'', filled_template = PStr [],
       evidence = [\<lparr> quote = ''the SPONSOR will   pay all costs'', page = ''1'', ev_section = [] \<rparr>,
                   \<lparr> quote = ''free parking'', page = ''2'', ev_section = [] \<rparr>],
       confidence = PStr ''HIGH'', er_notes = PStr [], raw_response = [], error = None \<rparr>"

definition sample_rows :: "string list list" where
  \<comment> \<open>a header, a short row, an excluded row and a row that is kept\<close>
  "sample_rows =
     [[''Section #'', ''Status'', ''Content Complexity'', ''Section Heading'', ''Sub-section'',
       ''Required or Optional'', ''Section Instructions'', ''Required Text''],
      [''1.0'', ''Included''],
      [''1.1'', ''Excluded'', ''Easy Mapping'', ''Title'', [], ''Required'', ''Find it'', ''T'', []],
      [''1.2'', ''Included'', ''Not in Protocol'', ''Sponsor'', [], ''Required'', ''Find it'',
       ''The sponsor is {{name}}.'', []]]"

section \<open>Facts about the text primitives\<close>

lemma lower_char_space: "is_space c \<Longrightarrow> lower_char c = c"
  by (auto simp: is_space_def lower_char_def)

lemma split_from_spaces: "\<forall>c\<in>set s. is_space c \<Longrightarrow> split_from [] s = []"
  by (induction s) auto

lemma normalise_spaces:
  assumes "\<forall>c\<in>set q. is_space c"
  shows "normalise q = []"
proof -
  have "lower q = q"
    using assms by (simp add: lower_def lower_char_space map_idI)
  then show ?thesis
    using assms by (simp add: normalise_def split_ws_def split_from_spaces)
qed

lemma join_Cons: "join sep (x # xs) = (if xs = [] then x else x @ sep @ join sep xs)"
  by (cases xs) simp_all

lemma contains_appendI1: "contains a p \<Longrightarrow> contains (a @ b) p"
  unfolding contains_def sublist_def by (metis append.assoc)

lemma contains_appendI2: "contains b p \<Longrightarrow> contains (a @ b) p"
  unfolding contains_def sublist_def by (metis append.assoc)

section \<open>The availability classification\<close>

lemma tag_contains_joined:
  "tag_contains tags phrase \<Longrightarrow> contains (join '' '' (map lower tags)) phrase"
proof (induction tags)
  case Nil
  then show ?case by (simp add: tag_contains_def)
next
  case (Cons t ts)
  show ?case
  proof (cases "contains (lower t) phrase")
    case True
    then show ?thesis
      by (simp add: join_Cons contains_appendI1)
  next
    case False
    with Cons.prems have rest: "tag_contains ts phrase"
      by (simp add: tag_contains_def)
    then have "contains (join '' '' (map lower ts)) phrase"
      by (rule Cons.IH)
    moreover from rest have "ts \<noteq> []"
      by (auto simp: tag_contains_def)
    ultimately have "contains (lower t @ ('' '' @ join '' '' (map lower ts))) phrase"
      by (intro contains_appendI2)
    with \<open>ts \<noteq> []\<close> show ?thesis
      by (simp add: join_Cons)
  qed
qed

text \<open>
  C5, as stated, fails: the tags \<open>Standard\<close> and \<open>Text\<close> hold the phrase
  \<open>standard text\<close> in no single tag, so the table read tag by tag gives rule 4; the
  program tests the tags joined by spaces, finds the phrase across the two tags and gives
  rule 1.
\<close>

theorem classify_availability_straddle_counterexample:
  "classify_availability [''Standard'', ''Text''] = (True, False, True)
   \<and> classify_by_tag [''Standard'', ''Text''] = (True, False, False)"
  by code_simp

text \<open>
  C5, amended: for every list of tags the classification follows the four rules in
  order, the first matching rule winning, where a phrase is looked for in the lower-cased
  tags joined by single spaces. A phrase that some tag contains, case-insensitively, is
  found there; so is a phrase that runs across adjacent tags.
\<close>

theorem classify_availability_joined_table:
  "classify_availability tags =
     (let joined = join '' '' (map lower tags);
          mapping = (contains joined ''easy mapping'' \<or> contains joined ''moderate mapping''
                     \<or> contains joined ''complex mapping'')
      in if contains joined ''standard text'' then (True, False, True)
         else if contains joined ''not in protocol'' \<and> \<not> mapping
                 \<and> \<not> contains joined ''potentially in protocol'' then (False, False, False)
         else if contains joined ''not in protocol'' then (True, True, False)
         else (True, False, False))
   \<and> (\<forall>phrase. tag_contains tags phrase \<longrightarrow> contains (join '' '' (map lower tags)) phrase)"
  by (auto simp: classify_availability_def Let_def tag_contains_joined)

theorem classify_availability_joined_table_witness:
  "classify_availability [''Not in Protocol'', ''Easy Mapping''] = (True, True, False)
   \<and> contains (join '' '' (map lower [''Not in Protocol'', ''Easy Mapping''])) ''easy mapping''"
proof -
  have tag: "tag_contains [''Not in Protocol'', ''Easy Mapping''] ''easy mapping''"
    by code_simp
  have table: "(let joined = join '' '' (map lower [''Not in Protocol'', ''Easy Mapping'']);
          mapping = (contains joined ''easy mapping'' \<or> contains joined ''moderate mapping''
                     \<or> contains joined ''complex mapping'')
      in if contains joined ''standard text'' then (True, False, True)
         else if contains joined ''not in protocol'' \<and> \<not> mapping
                 \<and> \<not> contains joined ''potentially in protocol'' then (False, False, False)
         else if contains joined ''not in protocol'' then (True, True, False)
         else (True, False, False)) = (True, True, False)"
    by code_simp
  from classify_availability_joined_table[of "[''Not in Protocol'', ''Easy Mapping'']"] tag table
  show ?thesis by simp
qed

section \<open>Quote verification\<close>

text \<open>
  C7: \<open>verify_quote\<close> returns false whenever the quote or the reference is the empty
  string; and for a quote Q and a reference R that are not empty it returns true
  whenever Q, lower-cased and with its whitespace runs collapsed, is a substring of R
  normalised the same way.
\<close>

theorem verify_quote_containment:
  "(q \<noteq> [] \<and> r \<noteq> [] \<and> contains (normalise r) (normalise q) \<longrightarrow> verify_quote q r)
   \<and> (q = [] \<or> r = [] \<longrightarrow> \<not> verify_quote q r)"
  by (auto simp: verify_quote_def)

theorem verify_quote_containment_witness:
  "verify_quote ''the SPONSOR will   pay all costs'' ''The sponsor will pay all costs.''
   \<and> \<not> verify_quote [] ''The sponsor will pay all costs.''
   \<and> \<not> verify_quote ''the SPONSOR will   pay all costs'' []"
proof -
  have sub: "contains (normalise ''The sponsor will pay all costs.'')
                      (normalise ''the SPONSOR will   pay all costs'')"
    by code_simp
  have a: "verify_quote ''the SPONSOR will   pay all costs'' ''The sponsor will pay all costs.''"
    using verify_quote_containment[of "''the SPONSOR will   pay all costs''"
                                      "''The sponsor will pay all costs.''"] sub
    by simp
  have b: "\<not> verify_quote [] ''The sponsor will pay all costs.''"
    using verify_quote_containment[of "[]" "''The sponsor will pay all costs.''"] by simp
  have c: "\<not> verify_quote ''the SPONSOR will   pay all costs'' []"
    using verify_quote_containment[of "''the SPONSOR will   pay all costs''" "[]"] by simp
  from a b c show ?thesis by simp
qed

text \<open>
  C9: a quote that is not empty and holds whitespace only is verified against every
  non-empty reference: it normalises to the empty string, which every normalised
  reference contains.
\<close>

theorem verify_quote_whitespace_only:
  assumes "q \<noteq> []" and "\<forall>c\<in>set q. is_space c" and "r \<noteq> []"
  shows "verify_quote q r"
  using assms by (simp add: verify_quote_def normalise_spaces contains_def)

theorem verify_quote_whitespace_only_witness:
  "verify_quote [CHR 0x20, CHR 0x09] ''The sponsor will pay all costs.''"
proof -
  have sp: "\<forall>c\<in>set [CHR 0x20, CHR 0x09]. is_space c"
    by (simp add: is_space_def)
  show ?thesis
    by (rule verify_quote_whitespace_only[OF _ sp]) simp_all
qed

section \<open>Validation of a result\<close>

lemma verify_loop_acc:
  "verify_loop evs doc oks iss =
     (oks @ map (\<lambda>ev. verify_quote (quote ev) doc) evs,
      iss @ map (\<lambda>ev. quote_issue (quote ev))
                (filter (\<lambda>ev. \<not> verify_quote (quote ev) doc) evs))"
  by (induction evs arbitrary: oks iss) (simp_all add: Let_def)

lemma quote_issue_length: "length (quote_issue q) \<le> 117"
  by (simp add: quote_issue_def replace_newlines_def)

lemma member_skip_statuses:
  "List.member skip_statuses s \<longleftrightarrow>
     s \<in> {PStr ''SKIPPED'', PStr ''ERROR'', PStr ''NOT_FOUND'', PStr ''STANDARD_TEXT''}"
  by (auto simp: skip_statuses_def)

lemma validate_one_skip:
  "s \<in> {PStr ''SKIPPED'', PStr ''ERROR'', PStr ''NOT_FOUND'', PStr ''STANDARD_TEXT''} \<Longrightarrow>
   status ext = s \<Longrightarrow>
   validate_one l ext doc =
     Inr \<lparr> vr_section_id = er_section_id ext, quotes_verified = [],
           reading_grade_level = None, issues = [] \<rparr>"
  unfolding validate_one_def member_skip_statuses by simp

lemma validate_one_checked:
  "status ext \<notin> {PStr ''SKIPPED'', PStr ''ERROR'', PStr ''NOT_FOUND'', PStr ''STANDARD_TEXT''} \<Longrightarrow>
   validate_one l ext doc =
     (case verify_loop (evidence ext) doc [] [] of
             (quotes_ok, iss) \<Rightarrow>
               (case check_reading_level l (answer ext) of
                  Inl e \<Rightarrow> Inl e
                | Inr grade \<Rightarrow>
                    Inr \<lparr> vr_section_id = er_section_id ext,
                          quotes_verified = quotes_ok,
                          reading_grade_level = grade,
                          issues = (case grade of
                                      None \<Rightarrow> iss
                                    | Some g \<Rightarrow> if g > READING_LEVEL_WARN
                                                then iss @ [reading_issue l g] else iss) \<rparr>))"
  unfolding validate_one_def member_skip_statuses by simp

lemma validate_one_graded:
  assumes "status ext \<notin> {PStr ''SKIPPED'', PStr ''ERROR'', PStr ''NOT_FOUND'', PStr ''STANDARD_TEXT''}"
    and "check_reading_level l (answer ext) = Inr g"
  shows "validate_one l ext doc =
           Inr \<lparr> vr_section_id = er_section_id ext,
                 quotes_verified = map (\<lambda>ev. verify_quote (quote ev) doc) (evidence ext),
                 reading_grade_level = g,
                 issues = map (\<lambda>ev. quote_issue (quote ev))
                              (filter (\<lambda>ev. \<not> verify_quote (quote ev) doc) (evidence ext))
                          @ (case g of
                               None \<Rightarrow> []
                             | Some x \<Rightarrow> if x > 8 then [reading_issue l x] else []) \<rparr>"
  using assms
  by (cases g) (simp_all add: validate_one_checked verify_loop_acc READING_LEVEL_WARN_def)

lemma validate_one_raises:
  assumes "status ext \<notin> {PStr ''SKIPPED'', PStr ''ERROR'', PStr ''NOT_FOUND'', PStr ''STANDARD_TEXT''}"
    and "check_reading_level l (answer ext) = Inl e"
  shows "validate_one l ext doc = Inl e"
  using assms by (simp add: validate_one_checked verify_loop_acc)

lemma check_reading_level_not_str:
  assumes "truthy t" and "\<forall>s. t \<noteq> PStr s"
  shows "check_reading_level l t = Inl (attribute_error t ''split'')"
  using assms by (cases t) (simp_all add: check_reading_level_def)

lemma validate_loop_raises:
  "validate_one l ext doc = Inl e \<Longrightarrow>
   \<forall>x \<in> set pre. \<exists>v. validate_one l x doc = Inr v \<Longrightarrow>
   validate_loop l (pre @ ext # post) doc acc = Inl e"
proof (induction pre arbitrary: acc)
  case Nil
  then show ?case by simp
next
  case (Cons p pre)
  then obtain v where "validate_one l p doc = Inr v" by auto
  with Cons show ?case by simp
qed

text \<open>
  C8 fails on a result the router builds. The agent's answer below gives a FOUND result
  whose answer is the number 5; \<open>check_reading_level\<close> calls \<open>split\<close> on it, and the
  \<open>AttributeError\<close> leaves \<open>validate_extractions\<close>: no ValidationResult is returned, neither
  the aligned flags for the FOUND result nor the empty one for the SKIPPED result before
  it.
\<close>

theorem validate_extractions_number_answer:
  "extract_variable sample_engine sample_protocol (sample_variable ''1.2'' number_json)
     = Done \<lparr> er_section_id = PStr ''1.2'', er_heading = ''Sponsor'', er_sub_section = None,
              status = PStr ''FOUND'', answer = PInt 5, filled_template = PStr [],
              evidence = [], confidence = PStr ''LOW'', er_notes = PStr [],
              raw_response = number_json, error = None \<rparr>
   \<and> validate_extractions sample_lib
        [make_skipped_result (sample_variable ''1.1'' []),
         \<lparr> er_section_id = PStr ''1.2'', er_heading = ''Sponsor'', er_sub_section = None,
           status = PStr ''FOUND'', answer = PInt 5, filled_template = PStr [],
           evidence = [], confidence = PStr ''LOW'', er_notes = PStr [],
           raw_response = number_json, error = None \<rparr>]
        sample_protocol
     = Inl (Exc OtherException ''AttributeError''
              ([CHR 0x27] @ ''int'' @ [CHR 0x27] @ '' object has no attribute ''
                 @ [CHR 0x27] @ ''split'' @ [CHR 0x27]))"
  by code_simp

section \<open>The router\<close>

lemma extract_variable_routed:
  "routed_to_agent v \<Longrightarrow> extract_variable eng doc v =
     (case agent_answer eng doc v of
        KeyboardInterrupt \<Rightarrow> Interrupted
      | Fails e \<Rightarrow> Done (exception_result v e)
      | Response raw \<Rightarrow>
          (case parse_response (stdlib eng) raw v of
             Inl e \<Rightarrow> Done (exception_result v e)
           | Inr r \<Rightarrow> Done r))"
  by (auto simp: routed_to_agent_def extract_variable_def run_rlm_extraction_def agent_answer_def)

lemma extract_variable_not_routed:
  "\<not> routed_to_agent v \<Longrightarrow> extract_variable eng doc v =
     Done (if is_standard_text v then make_standard_result v else make_skipped_result v)"
  by (auto simp: routed_to_agent_def extract_variable_def)

lemma parse_response_cases:
  "parse_response l raw v = Inr r \<Longrightarrow>
     (parse_extraction_json l raw = Inr None \<and> r = parse_failure_result v raw)
     \<or> (\<exists>data items. parse_extraction_json l raw = Inr (Some data)
           \<and> py_iter (dict_get data ''evidence'' (PList [])) = Inr items
           \<and> r = record_result v raw data (collect_evidence l items []))"
  by (auto simp: parse_response_def split: sum.splits option.splits)

lemma extract_variable_returns:
  "\<not> interrupted_at eng doc v \<Longrightarrow> \<exists>r. extract_variable eng doc v = Done r"
proof (cases "routed_to_agent v")
  case False
  then show ?thesis by (simp add: extract_variable_not_routed)
next
  case True
  assume "\<not> interrupted_at eng doc v"
  with True have "agent_answer eng doc v \<noteq> KeyboardInterrupt"
    by (simp add: interrupted_at_def)
  with True show ?thesis
    by (auto simp: extract_variable_routed split: agent_outcome.splits sum.splits)
qed



lemma parse_response_record:
  "parse_extraction_json l raw = Inr (Some data) \<Longrightarrow>
   py_iter (dict_get data ''evidence'' (PList [])) = Inr items \<Longrightarrow>
   parse_response l raw v = Inr (record_result v raw data (collect_evidence l items []))"
  by (simp add: parse_response_def)








section \<open>The orchestrator\<close>

lemma validate_one_section_id:
  "validate_one l ext doc = Inr v \<Longrightarrow> vr_section_id v = er_section_id ext"
  by (auto simp: validate_one_def split: if_splits prod.splits sum.splits)

lemma validate_loop_acc:
  "validate_loop l exts doc acc = Inr vals \<Longrightarrow>
     \<exists>vs. vals = acc @ vs \<and> map vr_section_id vs = map er_section_id exts"
proof (induction exts arbitrary: acc)
  case Nil
  then show ?case by simp
next
  case (Cons ext rest)
  from Cons.prems obtain v where v: "validate_one l ext doc = Inr v"
    and rest: "validate_loop l rest doc (acc @ [v]) = Inr vals"
    by (auto split: sum.splits)
  from Cons.IH[OF rest] obtain vs where "vals = (acc @ [v]) @ vs"
    and "map vr_section_id vs = map er_section_id rest"
    by blast
  with validate_one_section_id[OF v] show ?case
    by (intro exI[of _ "v # vs"]) simp
qed

lemma extract_loop_acc:
  "\<forall>v \<in> set vars. \<not> interrupted_at eng doc v \<Longrightarrow>
     \<exists>rs. extract_loop eng doc vars acc = acc @ rs
          \<and> map Done rs = map (extract_variable eng doc) vars"
proof (induction vars arbitrary: acc)
  case Nil
  then show ?case by simp
next
  case (Cons v rest)
  then obtain r where r: "extract_variable eng doc v = Done r"
    using extract_variable_returns[of eng doc v] by auto
  from Cons obtain rs where "extract_loop eng doc rest (acc @ [r]) = (acc @ [r]) @ rs"
    and "map Done rs = map (extract_variable eng doc) rest"
    by (metis list.set_intros(2))
  with r show ?case
    by (intro exI[of _ "r # rs"]) simp
qed

lemma record_section_id_carried:
  assumes "routed_to_agent v"
    and "agent_answer eng doc v = Response raw"
    and "parse_extraction_json (stdlib eng) raw = Inr (Some data)"
    and "py_iter (dict_get data ''evidence'' (PList [])) = Inr items"
  shows "\<exists>r. extract_variable eng doc v = Done r
             \<and> er_section_id r = dict_get data ''section_id'' (PStr (section_id v))"
  using assms
  by (simp add: extract_variable_routed parse_response_record record_result_def)

lemma run_results_in_order:
  assumes "\<forall>v \<in> set vars. \<not> interrupted_at eng doc v"
    and "run_extract_validate eng doc vars = Inr (exts, vals)"
  shows "length exts = length vars \<and> length vals = length vars
         \<and> (\<forall>i < length vars.
               extract_variable eng doc (vars ! i) = Done (exts ! i)
               \<and> vr_section_id (vals ! i) = er_section_id (exts ! i))"
proof -
  from extract_loop_acc[OF assms(1), of "[]"]
  obtain rs where rs: "extract_loop eng doc vars [] = rs"
    and mapped: "map Done rs = map (extract_variable eng doc) vars"
    by auto
  have len: "length rs = length vars"
    using mapped by (metis length_map)
  have nth: "extract_variable eng doc (vars ! i) = Done (rs ! i)" if "i < length vars" for i
    using mapped that len by (metis nth_map)
  from assms(2) rs have e: "exts = rs"
    and v: "validate_loop (stdlib eng) rs doc [] = Inr vals"
    by (auto simp: run_extract_validate_def validate_extractions_def Let_def split: sum.splits)
  from validate_loop_acc[OF v] have ids: "map vr_section_id vals = map er_section_id rs"
    by simp
  then have lv: "length vals = length rs"
    by (metis length_map)
  have "vr_section_id (vals ! i) = er_section_id (rs ! i)" if "i < length vars" for i
    using ids lv len that by (metis nth_map)
  with e len lv nth show ?thesis
    by simp
qed

text \<open>
  C2 fails on the identifier: \<open>_parse_response\<close> takes \<open>section_id\<close> from the recovered
  record when the record has one. For the work item \<open>1.1\<close> and the answer below, which
  names section \<open>9.9\<close>, the run returns one ExtractionResult and one ValidationResult, and
  both carry \<open>9.9\<close>: neither is found under the work item's identifier.
\<close>

theorem run_section_id_override:
  "\<not> interrupted_at sample_engine sample_protocol (sample_variable ''1.1'' renamed_json)
   \<and> section_id (sample_variable ''1.1'' renamed_json) = ''1.1''
   \<and> run_extract_validate sample_engine sample_protocol [sample_variable ''1.1'' renamed_json]
       = Inr ([\<lparr> er_section_id = PStr ''9.9'', er_heading = ''Sponsor'', er_sub_section = None,
                  status = PStr ''FOUND'', answer = PStr ''yes'', filled_template = PStr [],
                  evidence = [], confidence = PStr ''LOW'', er_notes = PStr [],
                  raw_response = renamed_json, error = None \<rparr>],
               [\<lparr> vr_section_id = PStr ''9.9'', quotes_verified = [],
                  reading_grade_level = None, issues = [] \<rparr>])"
  by code_simp

section \<open>Recovery of a record\<close>

text \<open>
  The loop over the candidates, given them in order of appearance: with no exception
  but \<open>JSONDecodeError\<close> raised by a parse, it returns the last candidate that parses
  as an object with a \<open>status\<close> key, or else the last that parses as an object.
\<close>

lemma scan_candidates_reversed:
  assumes "\<forall>c \<in> set xs. \<forall>e. json_loads lib c = Inl e \<longrightarrow> is_json_decode_error e"
  shows "scan_candidates lib xs av =
           Inr (if filter (\<lambda>d. has_key d ''status'') (List.map_filter (parsed_dict lib) xs) \<noteq> []
                then Some (hd (filter (\<lambda>d. has_key d ''status'') (List.map_filter (parsed_dict lib) xs)))
                else if av \<noteq> None then av
                else if List.map_filter (parsed_dict lib) xs \<noteq> []
                then Some (hd (List.map_filter (parsed_dict lib) xs))
                else None)"
  using assms
proof (induction xs arbitrary: av)
  case Nil
  then show ?case by (simp add: List.map_filter_simps)
next
  case (Cons c cs)
  then have IH: "\<And>av. scan_candidates lib cs av =
           Inr (if filter (\<lambda>d. has_key d ''status'') (List.map_filter (parsed_dict lib) cs) \<noteq> []
                then Some (hd (filter (\<lambda>d. has_key d ''status'') (List.map_filter (parsed_dict lib) cs)))
                else if av \<noteq> None then av
                else if List.map_filter (parsed_dict lib) cs \<noteq> []
                then Some (hd (List.map_filter (parsed_dict lib) cs))
                else None)"
    by simp
  show ?case
  proof (cases "json_loads lib c")
    case (Inl e)
    with Cons.prems have "is_json_decode_error e" by simp
    moreover from Inl have "parsed_dict lib c = None"
      by (simp add: parsed_dict_def)
    ultimately show ?thesis
      using Inl IH by (simp add: List.map_filter_simps)
  next
    case (Inr v)
    show ?thesis
    proof (cases "as_dict v")
      case None
      with Inr have "parsed_dict lib c = None"
        by (simp add: parsed_dict_def)
      with None Inr IH show ?thesis
        by (simp add: List.map_filter_simps)
    next
      case (Some d)
      with Inr have "parsed_dict lib c = Some d"
        by (simp add: parsed_dict_def)
      with Some Inr IH show ?thesis
        by (cases av) (simp_all add: List.map_filter_simps)
    qed
  qed
qed

lemma map_filter_rev: "List.map_filter f (rev xs) = rev (List.map_filter f xs)"
  by (simp add: List.map_filter_def rev_map rev_filter)

lemma scan_candidates_selection:
  assumes "\<forall>c \<in> set cs. \<forall>e. json_loads lib c = Inl e \<longrightarrow> is_json_decode_error e"
  shows "scan_candidates lib (rev cs) None =
           Inr (let ds = List.map_filter (parsed_dict lib) cs;
                    with_status = filter (\<lambda>d. has_key d ''status'') ds
                in if with_status \<noteq> [] then Some (last with_status)
                   else if ds \<noteq> [] then Some (last ds)
                   else None)"
proof -
  have "\<forall>c \<in> set (rev cs). \<forall>e. json_loads lib c = Inl e \<longrightarrow> is_json_decode_error e"
    using assms by simp
  from scan_candidates_reversed[OF this, of None] show ?thesis
    by (simp add: map_filter_rev rev_filter[symmetric] hd_rev Let_def)
qed

text \<open>
  C3 fails on the candidates themselves. A closing brace with no opening brace before it
  takes the depth count of \<open>_extract_brace_candidates\<close> to -1, so the opening brace of
  the next group is met at depth -1 and starts no candidate. In the text below the
  object is a maximal brace-balanced substring and parses with a \<open>status\<close> key, yet
  the scan finds no candidate and \<open>recover\<close> returns the fallback record on the whole
  text.
\<close>

theorem brace_scan_stray_closer:
  "extract_brace_candidates (''} '' @ found_json) = []
   \<and> json_loads sample_lib found_json
       = Inr (PDict [(PStr ''status'', PStr ''FOUND''), (PStr ''answer'', PStr ''x'')])
   \<and> direct_parse sample_lib (strip (''} '' @ found_json)) = Inr None
   \<and> python_literal sample_lib (strip (''} '' @ found_json)) = Inr None
   \<and> code_fence sample_lib (''} '' @ found_json) = Inr None
   \<and> parse_extraction_json sample_lib (''} '' @ found_json)
       = Inr (Some (fallback_record (''} '' @ found_json)))"
  by code_simp

text \<open>
  When the four structured strategies each end without a record, \<open>recover\<close> returns the
  fallback record if the trimmed text is longer than 20 characters, and nothing
  otherwise.
\<close>

lemma fallback_floor:
  assumes "direct_parse l (strip raw) = Inr None"
    and "python_literal l (strip raw) = Inr None"
    and "code_fence l raw = Inr None"
    and "balanced_braces l raw = Inr None"
  shows "(length (strip raw) > 20 \<longrightarrow>
            parse_extraction_json l raw =
              Inr (Some [(PStr ''status'', PStr ''PARTIAL''),
                         (PStr ''answer'', PStr (strip raw)),
                         (PStr ''filled_template'', PStr []),
                         (PStr ''evidence'', PList []),
                         (PStr ''confidence'', PStr ''LOW''),
                         (PStr ''notes'',
                          PStr ''RLM returned free-form text instead of JSON. Content may need manual review.'')]))
       \<and> (length (strip raw) \<le> 20 \<longrightarrow> parse_extraction_json l raw = Inr None)"
proof (cases "raw = []")
  case True
  then show ?thesis
    by (simp add: parse_extraction_json_def strip_def)
next
  case False
  with assms show ?thesis
    by (simp add: parse_extraction_json_def fallback_record_def)
qed

lemma fallback_floor_example:
  "parse_extraction_json sample_lib ''  The sponsor will pay all costs.  ''
     = Inr (Some [(PStr ''status'', PStr ''PARTIAL''),
                  (PStr ''answer'', PStr ''The sponsor will pay all costs.''),
                  (PStr ''filled_template'', PStr []),
                  (PStr ''evidence'', PList []),
                  (PStr ''confidence'', PStr ''LOW''),
                  (PStr ''notes'',
                   PStr ''RLM returned free-form text instead of JSON. Content may need manual review.'')])
   \<and> parse_extraction_json sample_lib '' no data '' = Inr None"
proof -
  let ?long = "''  The sponsor will pay all costs.  ''"
  let ?short = "'' no data ''"
  have s1: "strip ?long = ''The sponsor will pay all costs.''" and s2: "strip ?short = ''no data''"
    by code_simp+
  have l1: "direct_parse sample_lib (strip ?long) = Inr None"
    and l2: "python_literal sample_lib (strip ?long) = Inr None"
    and l3: "code_fence sample_lib ?long = Inr None"
    and l4: "balanced_braces sample_lib ?long = Inr None"
    by code_simp+
  have t1: "direct_parse sample_lib (strip ?short) = Inr None"
    and t2: "python_literal sample_lib (strip ?short) = Inr None"
    and t3: "code_fence sample_lib ?short = Inr None"
    and t4: "balanced_braces sample_lib ?short = Inr None"
    by code_simp+
  from fallback_floor[OF l1 l2 l3 l4] s1
  have a: "parse_extraction_json sample_lib ?long
     = Inr (Some [(PStr ''status'', PStr ''PARTIAL''),
                  (PStr ''answer'', PStr ''The sponsor will pay all costs.''),
                  (PStr ''filled_template'', PStr []),
                  (PStr ''evidence'', PList []),
                  (PStr ''confidence'', PStr ''LOW''),
                  (PStr ''notes'',
                   PStr ''RLM returned free-form text instead of JSON. Content may need manual review.'')])"
    by simp
  from fallback_floor[OF t1 t2 t3 t4] s2
  have b: "parse_extraction_json sample_lib ?short = Inr None"
    by simp
  from a b show ?thesis by blast
qed


text \<open>
  C4 fails where a strategy does not end: the handler of strategy 2 catches
  \<open>ValueError\<close> and \<open>SyntaxError\<close> only. The text below, 36 characters long, is no JSON;
  read as a Python literal it is a set that holds a dict, and \<open>ast.literal_eval\<close> raises
  \<open>TypeError\<close> on it. The exception leaves \<open>parse_extraction_json\<close>, which returns neither
  the fallback record nor nothing, and the router records an ERROR.
\<close>

theorem recover_raises_on_literal_type_error:
  "length (strip nested_json) = 36
   \<and> direct_parse sample_lib (strip nested_json) = Inr None
   \<and> literal_eval sample_lib (strip nested_json)
       = Inl (Exc OtherException ''TypeError''
                (''unhashable type: '' @ [CHR 0x27] @ ''dict'' @ [CHR 0x27]))
   \<and> parse_extraction_json sample_lib nested_json
       = Inl (Exc OtherException ''TypeError''
                (''unhashable type: '' @ [CHR 0x27] @ ''dict'' @ [CHR 0x27]))"
  by code_simp

section \<open>Loading the registry\<close>

lemma strip_no_space: "\<forall>c \<in> set s. \<not> is_space c \<Longrightarrow> strip s = s"
proof -
  assume ns: "\<forall>c \<in> set s. \<not> is_space c"
  have d: "dropWhile is_space t = t" if "\<forall>c \<in> set t. \<not> is_space c" for t
    using that by (cases t) simp_all
  have "dropWhile is_space s = s"
    using ns by (rule d)
  moreover have "dropWhile is_space (rev s) = rev s"
    using ns by (intro d) simp
  ultimately show ?thesis
    by (simp add: strip_def)
qed

lemma lower_excluded_no_space:
  assumes "lower s = ''excluded''"
  shows "\<forall>c \<in> set s. \<not> is_space c"
proof
  fix c assume c: "c \<in> set s"
  then have "lower_char c \<in> set (lower s)"
    by (simp add: lower_def)
  with assms have l: "lower_char c \<in> set ''excluded''"
    by simp
  show "\<not> is_space c"
  proof
    assume "is_space c"
    then have "lower_char c = c" and "c \<in> {CHR 0x09, CHR 0x0A, CHR 0x0B, CHR 0x0C, CHR 0x0D,
                        CHR 0x1C, CHR 0x1D, CHR 0x1E, CHR 0x1F, CHR 0x20,
                        CHR 0x85, CHR 0xA0}"
      by (simp_all add: lower_char_space is_space_def)
    with l show False by auto
  qed
qed

lemma excluded_row_skipped:
  "lower (r ! 1) = ''excluded'' \<Longrightarrow> row_skipped r"
  by (simp add: row_skipped_def strip_no_space lower_excluded_no_space)

lemma load_rows_step_skipped:
  "row_skipped r \<Longrightarrow> load_rows lib (r # rest) acc = load_rows lib rest acc"
  unfolding row_skipped_def by (cases "length r < 8") (simp_all del: One_nat_def)

lemma load_rows_step_kept:
  "\<not> row_skipped r \<Longrightarrow> load_rows lib (r # rest) acc =
     (case build_variable lib r of
        Inl e \<Rightarrow> Inl e
      | Inr v \<Rightarrow> load_rows lib rest (acc @ [v]))"
  unfolding row_skipped_def by (simp del: One_nat_def)

lemma load_rows_drop:
  "row_skipped r \<Longrightarrow> load_rows lib (pre @ r # post) acc = load_rows lib (pre @ post) acc"
proof (induction pre arbitrary: acc)
  case Nil
  then show ?case by (simp only: append_Nil load_rows_step_skipped)
next
  case (Cons p pre)
  show ?case
  proof (cases "row_skipped p")
    case True
    with Cons show ?thesis
      by (simp only: append_Cons load_rows_step_skipped)
  next
    case False
    have "load_rows lib ((p # pre) @ r # post) acc =
            (case build_variable lib p of
               Inl e \<Rightarrow> Inl e
             | Inr v \<Rightarrow> load_rows lib (pre @ r # post) (acc @ [v]))"
      by (simp only: append_Cons load_rows_step_kept[OF False])
    also have "\<dots> = (case build_variable lib p of
               Inl e \<Rightarrow> Inl e
             | Inr v \<Rightarrow> load_rows lib (pre @ post) (acc @ [v]))"
      by (cases "build_variable lib p") (simp_all only: sum.case Cons.IH[OF Cons.prems])
    also have "\<dots> = load_rows lib ((p # pre) @ post) acc"
      by (simp only: append_Cons load_rows_step_kept[OF False])
    finally show ?thesis .
  qed
qed

lemma load_rows_all_skipped:
  "\<forall>r \<in> set rows. row_skipped r \<Longrightarrow> load_rows lib rows acc = Inr acc"
proof (induction rows)
  case Nil
  show ?case by simp
next
  case (Cons r rows)
  then have "row_skipped r" and "load_rows lib rows acc = Inr acc"
    by simp_all
  then show ?case
    by (simp only: load_rows_step_skipped)
qed

lemma load_template_registry_nonempty:
  "load_template_registry lib path file \<noteq> Inr []"
  by (auto simp: load_template_registry_def split: option.splits list.splits sum.splits)

text \<open>
  C10: a data row with fewer than 8 cells, and a row whose status cell is \<open>excluded\<close> in
  any letter case (also with blanks around it), leaves the result of
  \<open>load_template_registry\<close> as it is without the row, on every file; when every data row
  is of these kinds the function raises \<open>ValueError\<close>; and it never returns an empty list.
\<close>

theorem load_template_registry_skips_rows:
  "(length r < 8 \<or> lower (r ! 1) = ''excluded'' \<or> lower (strip (r ! 1)) = ''excluded'' \<longrightarrow>
      load_template_registry lib path (Some (header # pre @ r # post))
        = load_template_registry lib path (Some (header # pre @ post)))
   \<and> ((\<forall>r \<in> set rows. length r < 8 \<or> lower (r ! 1) = ''excluded''
                           \<or> lower (strip (r ! 1)) = ''excluded'') \<longrightarrow>
      load_template_registry lib path (Some (header # rows))
        = Inl (Exc ValueError ''ValueError'' (''No variables loaded from CSV: '' @ path)))
   \<and> load_template_registry lib path file \<noteq> Inr []"
proof -
  have skipped: "row_skipped x"
    if "length x < 8 \<or> lower (x ! 1) = ''excluded'' \<or> lower (strip (x ! 1)) = ''excluded''"
    for x
    using that excluded_row_skipped[of x] by (auto simp: row_skipped_def)
  have one: "load_template_registry lib path (Some (header # pre @ r # post))
        = load_template_registry lib path (Some (header # pre @ post))"
    if "length r < 8 \<or> lower (r ! 1) = ''excluded'' \<or> lower (strip (r ! 1)) = ''excluded''"
    using skipped[OF that] by (simp add: load_template_registry_def load_rows_drop)
  have none: "load_template_registry lib path (Some (header # rows))
        = Inl (Exc ValueError ''ValueError'' (''No variables loaded from CSV: '' @ path))"
    if "\<forall>r \<in> set rows. length r < 8 \<or> lower (r ! 1) = ''excluded''
                           \<or> lower (strip (r ! 1)) = ''excluded''"
  proof -
    from that skipped have "\<forall>r \<in> set rows. row_skipped r" by blast
    then show ?thesis
      by (simp add: load_template_registry_def load_rows_all_skipped)
  qed
  from one none load_template_registry_nonempty show ?thesis by blast
qed

theorem load_template_registry_skips_rows_witness:
  "load_template_registry sample_lib ''t.csv'' (Some sample_rows)
     = load_template_registry sample_lib ''t.csv'' (Some [sample_rows ! 0, sample_rows ! 3])
   \<and> load_template_registry sample_lib ''t.csv'' (Some sample_rows)
     = Inr [\<lparr> section_id = ''1.2'', heading = ''Sponsor'', sub_section = None, required = True,
              instructions = ''Find it'', required_text = ''The sponsor is {{name}}.'',
              suggested_text = [], complexity = [''Not in Protocol''], protocol_mapping = [],
              sponsor_mapping = [], is_in_protocol = False, partially_in_protocol = False,
              is_standard_text = False, var_notes = [], csv_status = ''Included'' \<rparr>]
   \<and> load_template_registry sample_lib ''t.csv'' (Some (take 3 sample_rows))
     = Inl (Exc ValueError ''ValueError'' ''No variables loaded from CSV: t.csv'')"
proof -
  let ?h = "sample_rows ! 0" and ?short = "sample_rows ! 1"
  and ?excl = "sample_rows ! 2" and ?kept = "sample_rows ! 3"
  have rows: "sample_rows = ?h # [] @ ?short # [?excl, ?kept]"
    and rows': "[?h, ?excl, ?kept] = ?h # [] @ ?excl # [?kept]"
    and rows3: "take 3 sample_rows = ?h # [?short, ?excl]"
    by (simp_all add: sample_rows_def)
  have short: "length ?short < 8" and excl: "lower (?excl ! 1) = ''excluded''"
    by code_simp+
  have a: "load_template_registry sample_lib ''t.csv'' (Some (?h # [] @ ?short # [?excl, ?kept]))
             = load_template_registry sample_lib ''t.csv'' (Some (?h # [] @ [?excl, ?kept]))"
    using load_template_registry_skips_rows[where r = ?short and lib = sample_lib
            and path = "''t.csv''" and header = ?h and pre = "[]" and post = "[?excl, ?kept]"]
          short
    by blast
  have b: "load_template_registry sample_lib ''t.csv'' (Some (?h # [] @ ?excl # [?kept]))
             = load_template_registry sample_lib ''t.csv'' (Some (?h # [] @ [?kept]))"
    using load_template_registry_skips_rows[where r = ?excl and lib = sample_lib
            and path = "''t.csv''" and header = ?h and pre = "[]" and post = "[?kept]"]
          excl
    by blast
  have c: "load_template_registry sample_lib ''t.csv'' (Some (?h # [?short, ?excl]))
             = Inl (Exc ValueError ''ValueError'' (''No variables loaded from CSV: '' @ ''t.csv''))"
    using load_template_registry_skips_rows[where rows = "[?short, ?excl]" and lib = sample_lib
            and path = "''t.csv''" and header = ?h]
          short excl
    by simp
  have first: "load_template_registry sample_lib ''t.csv'' (Some sample_rows)
     = load_template_registry sample_lib ''t.csv'' (Some [?h, ?kept])"
    using a b rows by simp
  have kept: "load_template_registry sample_lib ''t.csv'' (Some [?h, ?kept])
     = Inr [\<lparr> section_id = ''1.2'', heading = ''Sponsor'', sub_section = None, required = True,
              instructions = ''Find it'', required_text = ''The sponsor is {{name}}.'',
              suggested_text = [], complexity = [''Not in Protocol''], protocol_mapping = [],
              sponsor_mapping = [], is_in_protocol = False, partially_in_protocol = False,
              is_standard_text = False, var_notes = [], csv_status = ''Included'' \<rparr>]"
    by code_simp
  from first kept c rows3 show ?thesis
    by simp
qed

end
